theory Spec2Isabelle
  imports Main "HOL-Library.Word" "HOL-Library.Multiset" "HOL-Library.Sublist"
begin

section \<open>Data model\<close>

text \<open>
  The values that \<^verbatim>\<open>json.loads\<close> produces: \<^verbatim>\<open>None\<close>, booleans, unbounded
  integers, floats (carried as the 64 bits of the IEEE double, never inspected), strings,
  lists and dicts. A dict is an association list with distinct keys; a key is looked up
  with \<open>map_of\<close>. Strings are \<open>char list\<close>.
\<close>

datatype json =
    JNull
  | JBool bool
  | JInt int
  | JFloat "64 word"
  | JStr string
  | JList "json list"
  | JObj "(string \<times> json) list"

text \<open>The exceptions that the modelled code can raise.\<close>

datatype exn =
    KeyError
  | TypeError
  | IndexError
  | ValueError
  | JSONDecodeError
  | OSError
  | CalledProcessError
  | UsageError

text \<open>\<^verbatim>\<open>Direction = Enum("Direction", ["INPUT", "OUTPUT"])\<close>\<close>

datatype Direction = INPUT | OUTPUT

text \<open>
  The dataclass \<^verbatim>\<open>AudioDevice\<close>. Its annotations (\<^verbatim>\<open>id: int\<close>, \<^verbatim>\<open>name: str\<close>) are
  not enforced at run time and the parser stores whatever the dump holds, so both fields
  carry a \<open>json\<close> value. The field \<^verbatim>\<open>id\<close> is \<open>dev_id\<close> here.
\<close>

record AudioDevice =
  dev_id :: json
  name :: json
  direction :: Direction
  muted :: "bool option"
  volume :: "64 word option"

section \<open>Device parser\<close>

text \<open>
  \<^verbatim>\<open>v[k]\<close> for a string key \<open>k\<close>: a dict raises \<^verbatim>\<open>KeyError\<close> on a missing key; a list
  or a string refuses a string index and every other value is not subscriptable, both
  with \<^verbatim>\<open>TypeError\<close>.
\<close>

definition subscript :: "json \<Rightarrow> string \<Rightarrow> exn + json" where
  "subscript v k =
     (case v of
        JObj kvs \<Rightarrow> (case map_of kvs k of None \<Rightarrow> Inl KeyError | Some x \<Rightarrow> Inr x)
      | _ \<Rightarrow> Inl TypeError)"

text \<open>\<^verbatim>\<open>except KeyError: return None\<close>; every other exception passes through.\<close>

definition except_KeyError :: "exn + 'a option \<Rightarrow> exn + 'a option" where
  "except_KeyError r = (case r of Inl KeyError \<Rightarrow> Inr None | _ \<Rightarrow> r)"

text \<open>Whether a value is a dict.\<close>

definition is_mapping :: "json \<Rightarrow> bool" where
  "is_mapping v = (case v of JObj kvs \<Rightarrow> True | _ \<Rightarrow> False)"

definition node_tag :: string where
  "node_tag = ''PipeWire:Interface:Node''"

definition audio_device_from_pw_node :: "json \<Rightarrow> exn + AudioDevice option" where
  "audio_device_from_pw_node node =
     except_KeyError
       (case subscript node ''type'' of
          Inl e \<Rightarrow> Inl e
        | Inr ty \<Rightarrow>
            if ty \<noteq> JStr node_tag then Inr None
            else
              (case subscript node ''info'' of
                 Inl e \<Rightarrow> Inl e
               | Inr info \<Rightarrow>
                   (case subscript info ''props'' of
                      Inl e \<Rightarrow> Inl e
                    | Inr props \<Rightarrow>
                        (case subscript props ''object.id'' of
                           Inl e \<Rightarrow> Inl e
                         | Inr i \<Rightarrow>
                             (case subscript props ''node.description'' of
                                Inl e \<Rightarrow> Inl e
                              | Inr n \<Rightarrow>
                                  (case subscript props ''media.class'' of
                                     Inl e \<Rightarrow> Inl e
                                   | Inr mc \<Rightarrow>
                                       if mc = JStr ''Audio/Sink'' then
                                         Inr (Some \<lparr>dev_id = i, name = n, direction = OUTPUT,
                                                    muted = None, volume = None\<rparr>)
                                       else if mc = JStr ''Audio/Source'' then
                                         Inr (Some \<lparr>dev_id = i, name = n, direction = INPUT,
                                                    muted = None, volume = None\<rparr>)
                                       else Inr None))))))"

section \<open>Strings\<close>

text \<open>\<^verbatim>\<open>s.split(c)\<close> with an explicit one-character separator: never empty.\<close>

fun split_on :: "char \<Rightarrow> string \<Rightarrow> string list" where
  "split_on c [] = [[]]"
| "split_on c (x # xs) =
     (if x = c then [] # split_on c xs
      else (case split_on c xs of
              [] \<Rightarrow> [[x]]
            | w # ws \<Rightarrow> (x # w) # ws))"

text \<open>\<^verbatim>\<open>xs[0]\<close>, which raises \<^verbatim>\<open>IndexError\<close> on an empty list.\<close>

definition first :: "'a list \<Rightarrow> exn + 'a" where
  "first xs = (case xs of [] \<Rightarrow> Inl IndexError | x # _ \<Rightarrow> Inr x)"

text \<open>\<^verbatim>\<open>sep.join(parts)\<close>\<close>

fun join :: "string \<Rightarrow> string list \<Rightarrow> string" where
  "join sep [] = []"
| "join sep [x] = x"
| "join sep (x # y # ys) = x @ sep @ join sep (y # ys)"

text \<open>\<^verbatim>\<open>str(i)\<close> for an integer: decimal digits, a minus sign for a negative one.\<close>

definition digit_char :: "nat \<Rightarrow> char" where
  "digit_char d = char_of (48 + d)"

fun digits :: "nat \<Rightarrow> string" where
  "digits n = (if n < 10 then [digit_char n] else digits (n div 10) @ [digit_char (n mod 10)])"

declare digits.simps [simp del]

definition str_int :: "int \<Rightarrow> string" where
  "str_int i = (if i < 0 then CHR ''-'' # digits (nat (- i)) else digits (nat i))"

text \<open>The value of a digit string, used to show that \<open>str_int\<close> loses nothing.\<close>

definition digits_value :: "string \<Rightarrow> nat" where
  "digits_value s = foldl (\<lambda>a c. 10 * a + (of_char c - 48)) 0 s"

section \<open>The environment\<close>

text \<open>
  One invocation of an external program: its argument vector and what \<^verbatim>\<open>run\<close> is
  given as \<^verbatim>\<open>input\<close> (\<open>None\<close> when the argument is not passed).
\<close>

record call =
  argv :: "string list"
  input :: "string option"

text \<open>
  What the program does: it cannot be started, or it exits with a return code after
  writing its standard output.
\<close>

datatype completed = Launch_failed | Exited int string

text \<open>
  Everything outside the script: \<open>exec\<close> answers a call, and may depend on the calls made
  before it; \<open>which\<close> is \<^verbatim>\<open>shutil.which\<close>; \<open>loads\<close> is \<^verbatim>\<open>json.loads\<close> (\<open>None\<close> when
  the text is not JSON); \<open>shlex_split\<close> is \<^verbatim>\<open>shlex.split\<close> (\<open>None\<close> when it raises
  \<^verbatim>\<open>ValueError\<close>); \<open>str_other\<close> is \<^verbatim>\<open>str\<close> on a float, a list or a dict.
\<close>

record env =
  exec :: "call list \<Rightarrow> call \<Rightarrow> completed"
  which :: "string \<Rightarrow> string option"
  loads :: "string \<Rightarrow> json option"
  shlex_split :: "string \<Rightarrow> string list option"
  str_other :: "json \<Rightarrow> string"

text \<open>
  \<^verbatim>\<open>subprocess.run(args, input=inp, capture_output=True, check=chk)\<close>, threading the
  list of calls made so far. With \<open>chk\<close>, a return code other than zero raises
  \<^verbatim>\<open>CalledProcessError\<close>; a program that cannot be started raises \<^verbatim>\<open>OSError\<close>.
\<close>

definition run :: "env \<Rightarrow> string list \<Rightarrow> string option \<Rightarrow> bool \<Rightarrow> call list
    \<Rightarrow> (exn + int \<times> string) \<times> call list" where
  "run w args inp chk t =
     (let c = \<lparr>argv = args, input = inp\<rparr> in
      case exec w t c of
        Launch_failed \<Rightarrow> (Inl OSError, t @ [c])
      | Exited rc out \<Rightarrow>
          if chk \<and> rc \<noteq> 0 then (Inl CalledProcessError, t @ [c])
          else (Inr (rc, out), t @ [c]))"

section \<open>Device lister\<close>

text \<open>
  \<^verbatim>\<open>for node in dump\<close>: a list yields its elements, a dict its keys, a string its
  characters; anything else is not iterable.
\<close>

definition iterate :: "json \<Rightarrow> exn + json list" where
  "iterate v =
     (case v of
        JList xs \<Rightarrow> Inr xs
      | JObj kvs \<Rightarrow> Inr (map (\<lambda>kv. JStr (fst kv)) kvs)
      | JStr s \<Rightarrow> Inr (map (\<lambda>c. JStr [c]) s)
      | _ \<Rightarrow> Inl TypeError)"

text \<open>\<^verbatim>\<open>[dev for node in dump if (dev := parse_dev(node)) is not None]\<close>\<close>

fun parse_nodes :: "json list \<Rightarrow> exn + AudioDevice list" where
  "parse_nodes [] = Inr []"
| "parse_nodes (node # rest) =
     (case audio_device_from_pw_node node of
        Inl e \<Rightarrow> Inl e
      | Inr None \<Rightarrow> parse_nodes rest
      | Inr (Some dev) \<Rightarrow>
          (case parse_nodes rest of
             Inl e \<Rightarrow> Inl e
           | Inr devs \<Rightarrow> Inr (dev # devs)))"

definition get_audio_devices :: "env \<Rightarrow> call list \<Rightarrow> (exn + AudioDevice list) \<times> call list" where
  "get_audio_devices w t =
     (case run w [''pw-dump''] None True t of
        (Inl e, t') \<Rightarrow> (Inl e, t')
      | (Inr (rc, out), t') \<Rightarrow>
          (case loads w out of
             None \<Rightarrow> (Inl JSONDecodeError, t')
           | Some dump \<Rightarrow>
               (case iterate dump of
                  Inl e \<Rightarrow> (Inl e, t')
                | Inr nodes \<Rightarrow> (parse_nodes nodes, t'))))"

text \<open>The call that the listing makes.\<close>

definition dump_call :: call where
  "dump_call = \<lparr>argv = [''pw-dump''], input = None\<rparr>"

definition is_input :: "AudioDevice \<Rightarrow> bool" where
  "is_input dev = (direction dev = INPUT)"

definition is_output :: "AudioDevice \<Rightarrow> bool" where
  "is_output dev = (direction dev = OUTPUT)"

definition get_inputs :: "env \<Rightarrow> call list \<Rightarrow> (exn + AudioDevice list) \<times> call list" where
  "get_inputs w t =
     (case get_audio_devices w t of
        (Inl e, t') \<Rightarrow> (Inl e, t')
      | (Inr devs, t') \<Rightarrow> (Inr (filter is_input devs), t'))"

definition get_outputs :: "env \<Rightarrow> call list \<Rightarrow> (exn + AudioDevice list) \<times> call list" where
  "get_outputs w t =
     (case get_audio_devices w t of
        (Inl e, t') \<Rightarrow> (Inl e, t')
      | (Inr devs, t') \<Rightarrow> (Inr (filter is_output devs), t'))"

section \<open>Menu interaction and default setter\<close>

text \<open>
  \<^verbatim>\<open>str(v)\<close>, as the f-string applies it to the fields of a device. For a float, a list
  or a dict the text comes from the environment.
\<close>

definition py_str :: "env \<Rightarrow> json \<Rightarrow> string" where
  "py_str w v =
     (case v of
        JNull \<Rightarrow> ''None''
      | JBool b \<Rightarrow> (if b then ''True'' else ''False'')
      | JInt i \<Rightarrow> str_int i
      | JStr s \<Rightarrow> s
      | _ \<Rightarrow> str_other w v)"

text \<open>\<^verbatim>\<open>f"{dev.id} {dev.name}"\<close>\<close>

definition menu_line :: "env \<Rightarrow> AudioDevice \<Rightarrow> string" where
  "menu_line w dev = py_str w (dev_id dev) @ '' '' @ py_str w (name dev)"

text \<open>\<^verbatim>\<open>"\n".join(f"{dev.id} {dev.name}" for dev in devs)\<close>\<close>

definition menu_text :: "env \<Rightarrow> AudioDevice list \<Rightarrow> string" where
  "menu_text w devs = join [CHR 0x0A] (map (menu_line w) devs)"

text \<open>\<^verbatim>\<open>except CalledProcessError: pass\<close>\<close>

definition except_CalledProcessError :: "(exn + unit) \<times> call list \<Rightarrow> (exn + unit) \<times> call list" where
  "except_CalledProcessError r =
     (case r of
        (Inl CalledProcessError, t) \<Rightarrow> (Inr (), t)
      | _ \<Rightarrow> r)"

text \<open>
  The statements shared by both handlers: run the picker on the menu text, take the text
  before the first space of its output, and hand it to \<^verbatim>\<open>wpctl set-default\<close>.
\<close>

definition pick_and_set :: "env \<Rightarrow> string list \<Rightarrow> string \<Rightarrow> call list \<Rightarrow> (exn + unit) \<times> call list" where
  "pick_and_set w menu sources t =
     (case run w menu (Some sources) True t of
        (Inl e, t') \<Rightarrow> (Inl e, t')
      | (Inr (rc, out), t') \<Rightarrow>
          (case first (split_on CHR '' '' out) of
             Inl e \<Rightarrow> (Inl e, t')
           | Inr i \<Rightarrow>
               (case run w [''wpctl'', ''set-default'', i] None True t' of
                  (Inl e, t'') \<Rightarrow> (Inl e, t'')
                | (Inr r, t'') \<Rightarrow> (Inr (), t''))))"

text \<open>\<^verbatim>\<open>select_source\<close>: the listing is inside the \<^verbatim>\<open>try\<close> block.\<close>

definition select_source :: "env \<Rightarrow> string list \<Rightarrow> call list \<Rightarrow> (exn + unit) \<times> call list" where
  "select_source w menu t =
     except_CalledProcessError
       (case get_inputs w t of
          (Inl e, t') \<Rightarrow> (Inl e, t')
        | (Inr devs, t') \<Rightarrow> pick_and_set w menu (menu_text w devs) t')"

text \<open>\<^verbatim>\<open>select_sink\<close>: the listing is before the \<^verbatim>\<open>try\<close> block.\<close>

definition select_sink :: "env \<Rightarrow> string list \<Rightarrow> call list \<Rightarrow> (exn + unit) \<times> call list" where
  "select_sink w menu t =
     (case get_outputs w t of
        (Inl e, t') \<Rightarrow> (Inl e, t')
      | (Inr devs, t') \<Rightarrow>
          except_CalledProcessError (pick_and_set w menu (menu_text w devs) t'))"

section \<open>Command line\<close>

text \<open>The loop of \<^verbatim>\<open>find_menuprog\<close>; falling off its end returns \<^verbatim>\<open>None\<close>.\<close>

fun find_first_prog :: "env \<Rightarrow> string list \<Rightarrow> exn + string option" where
  "find_first_prog w [] = Inr None"
| "find_first_prog w (prog # rest) =
     (case first (split_on CHR '' '' prog) of
        Inl e \<Rightarrow> Inl e
      | Inr p \<Rightarrow> if which w p \<noteq> None then Inr (Some prog) else find_first_prog w rest)"

definition find_menuprog :: "env \<Rightarrow> exn + string option" where
  "find_menuprog w =
     find_first_prog w [''dmenu'', ''dmenu-wl'', ''rofi -dmenu'', ''fuzzel --dmenu'']"

text \<open>
  The group callback \<^verbatim>\<open>audiomenu\<close>: its result is what it stores as
  \<^verbatim>\<open>ctx.obj["MENUPROG"]\<close>.
\<close>

definition audiomenu :: "env \<Rightarrow> string option \<Rightarrow> exn + string list" where
  "audiomenu w menu =
     (case menu of
        None \<Rightarrow> Inl UsageError
      | Some m \<Rightarrow> (case shlex_split w m of None \<Rightarrow> Inl ValueError | Some args \<Rightarrow> Inr args))"

datatype command = Select_source | Select_sink

record cli =
  menu_opt :: "string option"
  subcommand :: command

text \<open>
  The argument vector of the picker for a parsed command line: the option \<^verbatim>\<open>--menu\<close>
  defaults to the result of \<^verbatim>\<open>find_menuprog\<close>, and the group callback tokenises it.
\<close>

definition menu_prog :: "env \<Rightarrow> cli \<Rightarrow> exn + string list" where
  "menu_prog w args =
     (case (case menu_opt args of Some m \<Rightarrow> Inr (Some m) | None \<Rightarrow> find_menuprog w) of
        Inl e \<Rightarrow> Inl e
      | Inr menu \<Rightarrow> audiomenu w menu)"

text \<open>
  One run of the program, \<^verbatim>\<open>audiomenu(obj={})\<close>: the group callback, then the handler
  of the subcommand, starting with no call made.
\<close>

definition main :: "env \<Rightarrow> cli \<Rightarrow> (exn + unit) \<times> call list" where
  "main w args =
     (case menu_prog w args of
        Inl e \<Rightarrow> (Inl e, [])
      | Inr prog \<Rightarrow>
          (case subcommand args of
             Select_source \<Rightarrow> select_source w prog []
           | Select_sink \<Rightarrow> select_sink w prog []))"

text \<open>
  How the process ends, as the exit code and whether an error message is printed: a
  handler that returns ends it with 0; \<^verbatim>\<open>click\<close> reports a usage error and exits with
  2; any other exception leaves the interpreter with a traceback and exit code 1.
\<close>

definition exit_status :: "exn + unit \<Rightarrow> nat \<times> bool" where
  "exit_status r =
     (case r of
        Inr u \<Rightarrow> (0, False)
      | Inl UsageError \<Rightarrow> (2, True)
      | Inl e \<Rightarrow> (1, True))"

section \<open>Example values\<close>

text \<open>
  Two nodes as \<^verbatim>\<open>pw-dump\<close> prints them, the devices they parse to, and an environment
  with a fixed answer for the dump, the decoded JSON, the picker \<^verbatim>\<open>dmenu\<close> and the
  default setter.
\<close>

definition headset_node :: json where
  "headset_node =
     JObj [(''type'', JStr ''PipeWire:Interface:Node''),
           (''info'', JObj [(''props'', JObj [(''object.id'', JInt 42),
                                              (''node.description'', JStr ''Headset Mic''),
                                              (''media.class'', JStr ''Audio/Source'')])])]"

definition speakers_node :: json where
  "speakers_node =
     JObj [(''type'', JStr ''PipeWire:Interface:Node''),
           (''info'', JObj [(''props'', JObj [(''object.id'', JInt 57),
                                              (''node.description'', JStr ''Speakers''),
                                              (''media.class'', JStr ''Audio/Sink'')])])]"

definition headset :: AudioDevice where
  "headset = \<lparr>dev_id = JInt 42, name = JStr ''Headset Mic'', direction = INPUT,
               muted = None, volume = None\<rparr>"

definition speakers :: AudioDevice where
  "speakers = \<lparr>dev_id = JInt 57, name = JStr ''Speakers'', direction = OUTPUT,
                muted = None, volume = None\<rparr>"

definition example_env :: "completed \<Rightarrow> json option \<Rightarrow> completed \<Rightarrow> completed \<Rightarrow> env" where
  "example_env dumped decoded picked set_default =
     \<lparr>exec = (\<lambda>t c. if argv c = [''pw-dump''] then dumped
                     else if argv c = [''dmenu''] then picked
                     else set_default),
      which = (\<lambda>p. if p = ''rofi'' then Some ''/usr/bin/rofi'' else None),
      loads = (\<lambda>s. decoded),
      shlex_split = (\<lambda>s. Some (split_on CHR '' '' s)),
      str_other = (\<lambda>v. ''?'')\<rparr>"

text \<open>An environment in which no program is found on the execution path.\<close>

definition no_menu_env :: env where
  "no_menu_env =
     (example_env Launch_failed None Launch_failed Launch_failed)\<lparr>which := (\<lambda>p. None)\<rparr>"

section \<open>Facts about the string functions\<close>


lemma split_on_not_Nil: "split_on c s \<noteq> []"
  by (induction s) (auto split: list.splits)

lemma first_split_on: "first (split_on c s) = Inr (takeWhile (\<lambda>x. x \<noteq> c) s)"
proof (induction s)
  case Nil
  show ?case by (simp add: first_def)
next
  case (Cons x xs)
  then show ?case
    by (cases "split_on c xs") (auto simp: first_def)
qed

lemma first_split_on_prefix:
  assumes "c \<notin> set p"
  shows "first (split_on c (p @ c # rest)) = Inr p"
  using assms by (auto simp: first_split_on takeWhile_tail)

lemma of_char_digit_char: "d < 10 \<Longrightarrow> of_char (digit_char d) = 48 + d"
  by (simp add: digit_char_def)

lemma digit_char_not_space: "d < 10 \<Longrightarrow> digit_char d \<noteq> CHR '' ''"
proof
  assume "d < 10" and "digit_char d = CHR '' ''"
  then have "(of_char (digit_char d) :: nat) = of_char (CHR '' '')" by simp
  with \<open>d < 10\<close> show False by (simp add: of_char_digit_char)
qed

lemma digit_char_not_minus: "d < 10 \<Longrightarrow> digit_char d \<noteq> CHR ''-''"
proof
  assume "d < 10" and "digit_char d = CHR ''-''"
  then have "(of_char (digit_char d) :: nat) = of_char (CHR ''-'')" by simp
  with \<open>d < 10\<close> show False by (simp add: of_char_digit_char)
qed

lemma digits_chars: "c \<in> set (digits n) \<Longrightarrow> \<exists>d<10. c = digit_char d"
proof (induction n rule: digits.induct)
  case (1 n)
  show ?case
  proof (cases "n < 10")
    case True
    with "1.prems" show ?thesis by (auto simp: digits.simps [of n])
  next
    case False
    with "1.prems" have "c \<in> set (digits (n div 10)) \<or> c = digit_char (n mod 10)"
      by (auto simp: digits.simps [of n])
    then show ?thesis
    proof
      assume "c \<in> set (digits (n div 10))"
      with False "1.IH" show ?thesis by simp
    next
      assume "c = digit_char (n mod 10)"
      moreover have "n mod 10 < 10" by simp
      ultimately show ?thesis by blast
    qed
  qed
qed

lemma space_notin_digits: "CHR '' '' \<notin> set (digits n)"
proof
  assume "CHR '' '' \<in> set (digits n)"
  then obtain d where "d < 10" "CHR '' '' = digit_char d" using digits_chars by blast
  then show False using digit_char_not_space [of d] by simp
qed

lemma space_notin_str_int: "CHR '' '' \<notin> set (str_int i)"
  by (simp add: str_int_def space_notin_digits)

lemma digits_not_Nil: "digits n \<noteq> []"
  by (simp add: digits.simps [of n])

lemma digits_value_snoc: "digits_value (s @ [c]) = 10 * digits_value s + (of_char c - 48)"
  by (simp add: digits_value_def)

lemma digits_value_digits: "digits_value (digits n) = n"
proof (induction n rule: digits.induct)
  case (1 n)
  show ?case
  proof (cases "n < 10")
    case True
    then show ?thesis
      by (simp add: digits.simps [of n] digits_value_def of_char_digit_char)
  next
    case False
    have "digits_value (digits n) = 10 * digits_value (digits (n div 10)) + (of_char (digit_char (n mod 10)) - 48)"
      using False by (simp add: digits.simps [of n] digits_value_snoc)
    also have "\<dots> = 10 * (n div 10) + n mod 10"
      using False "1.IH" by (simp add: of_char_digit_char)
    finally show ?thesis by simp
  qed
qed

lemma digits_inject: "digits m = digits n \<Longrightarrow> m = n"
  by (metis digits_value_digits)

lemma hd_digits_not_minus: "hd (digits n) \<noteq> CHR ''-''"
proof -
  have "hd (digits n) \<in> set (digits n)" by (simp add: digits_not_Nil)
  then obtain d where "d < 10" "hd (digits n) = digit_char d" using digits_chars by blast
  then show ?thesis using digit_char_not_minus [of d] by simp
qed

lemma str_int_inject: "str_int i = str_int j \<Longrightarrow> i = j"
proof -
  assume eq: "str_int i = str_int j"
  show "i = j"
  proof (cases "i < 0"; cases "j < 0")
    assume "i < 0" "j < 0"
    with eq have "nat (- i) = nat (- j)" by (auto simp: str_int_def dest: digits_inject)
    with \<open>i < 0\<close> \<open>j < 0\<close> show ?thesis by simp
  next
    assume "i < 0" "\<not> j < 0"
    with eq have "CHR ''-'' # digits (nat (- i)) = digits (nat j)" by (simp add: str_int_def)
    then have "hd (digits (nat j)) = CHR ''-''" by (metis list.sel(1))
    then show ?thesis using hd_digits_not_minus by blast
  next
    assume "\<not> i < 0" "j < 0"
    with eq have "CHR ''-'' # digits (nat (- j)) = digits (nat i)" by (simp add: str_int_def)
    then have "hd (digits (nat i)) = CHR ''-''" by (metis list.sel(1))
    then show ?thesis using hd_digits_not_minus by blast
  next
    assume "\<not> i < 0" "\<not> j < 0"
    with eq have "nat i = nat j" by (auto simp: str_int_def dest: digits_inject)
    with \<open>\<not> i < 0\<close> \<open>\<not> j < 0\<close> show ?thesis by simp
  qed
qed


section \<open>Facts about the external calls\<close>

lemma subscript_JObj:
  "subscript (JObj kvs) k = (case map_of kvs k of None \<Rightarrow> Inl KeyError | Some x \<Rightarrow> Inr x)"
  by (simp add: subscript_def)

lemma run_Exited:
  "exec w t \<lparr>argv = a, input = i\<rparr> = Exited rc out \<Longrightarrow>
   run w a i True t =
     (if rc \<noteq> 0 then Inl CalledProcessError else Inr (rc, out), t @ [\<lparr>argv = a, input = i\<rparr>])"
  by (simp add: run_def)

lemma run_Launch_failed:
  "exec w t \<lparr>argv = a, input = i\<rparr> = Launch_failed \<Longrightarrow>
   run w a i True t = (Inl OSError, t @ [\<lparr>argv = a, input = i\<rparr>])"
  by (simp add: run_def)


lemma listing_exit_nonzero:
  "exec w t dump_call = Exited rc out \<Longrightarrow> rc \<noteq> 0 \<Longrightarrow>
   get_audio_devices w t = (Inl CalledProcessError, t @ [dump_call])"
  by (simp add: get_audio_devices_def dump_call_def run_Exited)

lemma listing_not_json:
  "exec w t dump_call = Exited 0 out \<Longrightarrow> loads w out = None \<Longrightarrow>
   get_audio_devices w t = (Inl JSONDecodeError, t @ [dump_call])"
  by (simp add: get_audio_devices_def dump_call_def run_Exited)

lemma listing_decoded:
  "exec w t dump_call = Exited 0 out \<Longrightarrow> loads w out = Some (JList nodes) \<Longrightarrow>
   get_audio_devices w t = (parse_nodes nodes, t @ [dump_call])"
  by (simp add: get_audio_devices_def dump_call_def run_Exited iterate_def)


lemma pick_cancelled:
  assumes "exec w t \<lparr>argv = menu, input = Some src\<rparr> = Exited rc out" and "rc \<noteq> 0"
  shows "pick_and_set w menu src t = (Inl CalledProcessError, t @ [\<lparr>argv = menu, input = Some src\<rparr>])"
  using assms by (simp add: pick_and_set_def run_Exited)

lemma pick_selected:
  assumes "exec w t \<lparr>argv = menu, input = Some src\<rparr> = Exited 0 out"
  shows "pick_and_set w menu src t =
     (case exec w (t @ [\<lparr>argv = menu, input = Some src\<rparr>])
             \<lparr>argv = [''wpctl'', ''set-default'', takeWhile (\<lambda>c. c \<noteq> CHR '' '') out], input = None\<rparr> of
        Launch_failed \<Rightarrow> Inl OSError
      | Exited rc' out' \<Rightarrow> if rc' \<noteq> 0 then Inl CalledProcessError else Inr (),
      t @ [\<lparr>argv = menu, input = Some src\<rparr>,
           \<lparr>argv = [''wpctl'', ''set-default'', takeWhile (\<lambda>c. c \<noteq> CHR '' '') out], input = None\<rparr>])"
  using assms
  by (simp add: pick_and_set_def run_Exited first_split_on run_def split: completed.splits)

lemma pick_first_call:
  "prefix (t @ [\<lparr>argv = menu, input = Some src\<rparr>]) (snd (pick_and_set w menu src t))"
proof (cases "exec w t \<lparr>argv = menu, input = Some src\<rparr>")
  case Launch_failed
  then show ?thesis by (simp add: pick_and_set_def run_Launch_failed)
next
  case (Exited rc out)
  show ?thesis
  proof (cases "rc = 0")
    case True
    with Exited show ?thesis by (simp add: pick_selected)
  next
    case False
    with Exited show ?thesis by (simp add: pick_cancelled)
  qed
qed

lemma snd_except_CalledProcessError: "snd (except_CalledProcessError r) = snd r"
  by (cases r) (auto simp: except_CalledProcessError_def split: sum.splits exn.splits)

lemma exec_example_env:
  "exec (example_env d j p s) t dump_call = d"
  "exec (example_env d j p s) t \<lparr>argv = [''dmenu''], input = i\<rparr> = p"
  "exec (example_env d j p s) t \<lparr>argv = ''wpctl'' # rest, input = i\<rparr> = s"
  "loads (example_env d j p s) out = j"
  by (simp_all add: example_env_def dump_call_def)

lemma parse_headset_node: "audio_device_from_pw_node headset_node = Inr (Some headset)"
  by (simp add: headset_node_def headset_def audio_device_from_pw_node_def subscript_def
      except_KeyError_def node_tag_def)

lemma parse_speakers_node: "audio_device_from_pw_node speakers_node = Inr (Some speakers)"
  by (simp add: speakers_node_def speakers_def audio_device_from_pw_node_def subscript_def
      except_KeyError_def node_tag_def)

lemma example_listing:
  "get_audio_devices (example_env (Exited 0 out) (Some (JList [headset_node, speakers_node])) p s) t
     = (Inr [headset, speakers], t @ [dump_call])"
  by (simp add: listing_decoded [where out = out] exec_example_env parse_headset_node parse_speakers_node)

lemma example_directions:
  "is_input headset" "\<not> is_input speakers" "is_output speakers" "\<not> is_output headset"
  by (simp_all add: is_input_def is_output_def headset_def speakers_def)


lemma example_menu_prog:
  "menu_prog (example_env d j p s) \<lparr>menu_opt = Some ''dmenu'', subcommand = c\<rparr> = Inr [''dmenu'']"
  by (simp add: menu_prog_def audiomenu_def example_env_def)


section \<open>The device parser\<close>

text \<open>
  C4: a record whose \<^verbatim>\<open>type\<close> field is anything but the string
  \<^verbatim>\<open>PipeWire:Interface:Node\<close> parses to \<^verbatim>\<open>None\<close>, whatever else it holds.
\<close>

theorem other_interface_gives_None:
  assumes "map_of kvs ''type'' = Some ty" and "ty \<noteq> JStr ''PipeWire:Interface:Node''"
  shows "audio_device_from_pw_node (JObj kvs) = Inr None"
  using assms
  by (simp add: audio_device_from_pw_node_def subscript_JObj except_KeyError_def node_tag_def)

theorem other_interface_gives_None_witness:
  "audio_device_from_pw_node
     (JObj [(''type'', JStr ''PipeWire:Interface:Link''), (''info'', JStr ''gone'')]) = Inr None"
  by (rule other_interface_gives_None [where ty = "JStr ''PipeWire:Interface:Link''"]) simp_all

text \<open>
  C3: a record with the node tag whose \<^verbatim>\<open>info\<close> and \<^verbatim>\<open>props\<close> are mappings holding the
  three fields parses to a device with direction \<open>OUTPUT\<close> for the media class
  \<^verbatim>\<open>Audio/Sink\<close>, with direction \<open>INPUT\<close> for \<^verbatim>\<open>Audio/Source\<close>, and to \<^verbatim>\<open>None\<close> for any
  other media class. The device has the id and the description of the record, and its
  \<open>muted\<close> and \<open>volume\<close> are unset.
\<close>

theorem parse_by_media_class:
  assumes "map_of kvs ''type'' = Some (JStr ''PipeWire:Interface:Node'')"
    and "map_of kvs ''info'' = Some (JObj ikvs)"
    and "map_of ikvs ''props'' = Some (JObj pkvs)"
    and "map_of pkvs ''object.id'' = Some i"
    and "map_of pkvs ''node.description'' = Some n"
    and "map_of pkvs ''media.class'' = Some mc"
  shows "audio_device_from_pw_node (JObj kvs) =
     (if mc = JStr ''Audio/Sink'' then
        Inr (Some \<lparr>dev_id = i, name = n, direction = OUTPUT, muted = None, volume = None\<rparr>)
      else if mc = JStr ''Audio/Source'' then
        Inr (Some \<lparr>dev_id = i, name = n, direction = INPUT, muted = None, volume = None\<rparr>)
      else Inr None)"
  using assms
  by (simp add: audio_device_from_pw_node_def subscript_JObj except_KeyError_def node_tag_def)

theorem parse_by_media_class_witness:
  "audio_device_from_pw_node speakers_node =
     Inr (Some \<lparr>dev_id = JInt 57, name = JStr ''Speakers'', direction = OUTPUT,
                muted = None, volume = None\<rparr>)"
  using parse_by_media_class
    [where kvs = "[(''type'', JStr ''PipeWire:Interface:Node''),
                   (''info'', JObj [(''props'', JObj [(''object.id'', JInt 57),
                                                      (''node.description'', JStr ''Speakers''),
                                                      (''media.class'', JStr ''Audio/Sink'')])])]"
       and ikvs = "[(''props'', JObj [(''object.id'', JInt 57),
                                      (''node.description'', JStr ''Speakers''),
                                      (''media.class'', JStr ''Audio/Sink'')])]"
       and pkvs = "[(''object.id'', JInt 57), (''node.description'', JStr ''Speakers''),
                    (''media.class'', JStr ''Audio/Sink'')]"
       and i = "JInt 57" and n = "JStr ''Speakers''" and mc = "JStr ''Audio/Sink''"]
  by (simp add: speakers_node_def)

text \<open>
  C2 fails on the code for a field of the wrong shape. For every record with the node tag
  whose \<^verbatim>\<open>info\<close> is present and is not a mapping, or whose \<^verbatim>\<open>info\<close> is a mapping with a
  \<^verbatim>\<open>props\<close> that is present and is not a mapping, the subscript raises \<^verbatim>\<open>TypeError\<close>. The
  handler, commented \<^verbatim>\<open># Malformed data\<close>, catches \<^verbatim>\<open>KeyError\<close> only, so the parser raises
  instead of returning \<^verbatim>\<open>None\<close>.
\<close>

theorem malformed_info_raises:
  assumes "map_of kvs ''type'' = Some (JStr ''PipeWire:Interface:Node'')"
    and "(\<exists>info. map_of kvs ''info'' = Some info \<and> \<not> is_mapping info)
       \<or> (\<exists>ikvs props. map_of kvs ''info'' = Some (JObj ikvs)
             \<and> map_of ikvs ''props'' = Some props \<and> \<not> is_mapping props)"
  shows "audio_device_from_pw_node (JObj kvs) = Inl TypeError"
proof -
  have s: "subscript v k = Inl TypeError" if "\<not> is_mapping v" for v k
    using that by (cases v) (simp_all add: subscript_def is_mapping_def)
  from assms(2) show ?thesis
  proof
    assume "\<exists>info. map_of kvs ''info'' = Some info \<and> \<not> is_mapping info"
    then obtain info where "map_of kvs ''info'' = Some info" "\<not> is_mapping info" by blast
    with assms(1) show ?thesis
      by (simp add: audio_device_from_pw_node_def subscript_JObj s except_KeyError_def node_tag_def)
  next
    assume "\<exists>ikvs props. map_of kvs ''info'' = Some (JObj ikvs)
             \<and> map_of ikvs ''props'' = Some props \<and> \<not> is_mapping props"
    then obtain ikvs props where "map_of kvs ''info'' = Some (JObj ikvs)"
      "map_of ikvs ''props'' = Some props" "\<not> is_mapping props" by blast
    with assms(1) show ?thesis
      by (simp add: audio_device_from_pw_node_def subscript_JObj s except_KeyError_def node_tag_def)
  qed
qed

theorem info_not_mapping_raises:
  "audio_device_from_pw_node
     (JObj [(''type'', JStr ''PipeWire:Interface:Node''), (''info'', JStr ''gone'')])
   = Inl TypeError"
  by (rule malformed_info_raises) (simp_all add: is_mapping_def)

text \<open>
  One such record ends the whole listing: the exception leaves the comprehension of
  \<^verbatim>\<open>get_audio_devices\<close>, whatever the other records are.
\<close>

lemma parse_nodes_raises:
  assumes "node \<in> set nodes" and "audio_device_from_pw_node node = Inl e"
  shows "\<exists>e'. parse_nodes nodes = Inl e'"
  using assms
proof (induction nodes)
  case Nil
  then show ?case by simp
next
  case (Cons n ns)
  show ?case
  proof (cases "audio_device_from_pw_node n")
    case (Inl e')
    then show ?thesis by simp
  next
    case (Inr r)
    with Cons.prems have "node \<in> set ns" by auto
    with Cons.IH Cons.prems(2) obtain e' where "parse_nodes ns = Inl e'" by blast
    with Inr show ?thesis by (cases r) simp_all
  qed
qed

lemma malformed_record_ends_listing:
  "get_audio_devices
     (example_env (Exited 0 ''[]'')
        (Some (JList [headset_node,
                      JObj [(''type'', JStr ''PipeWire:Interface:Node''), (''info'', JStr ''gone'')]]))
        Launch_failed Launch_failed) []
   = (Inl TypeError, [dump_call])"
proof -
  let ?bad = "JObj [(''type'', JStr ''PipeWire:Interface:Node''), (''info'', JStr ''gone'')]"
  let ?w = "example_env (Exited 0 ''[]'') (Some (JList [headset_node, ?bad]))
              Launch_failed Launch_failed"
  have b: "audio_device_from_pw_node ?bad = Inl TypeError"
    by (simp add: audio_device_from_pw_node_def subscript_def except_KeyError_def node_tag_def)
  have "get_audio_devices ?w [] = (parse_nodes [headset_node, ?bad], [] @ [dump_call])"
    by (rule listing_decoded [where out = "''[]''"]) (simp_all add: exec_example_env)
  then show ?thesis by (simp add: parse_headset_node b)
qed

text \<open>
  What the parser does handle: a record (a mapping) parses to \<^verbatim>\<open>None\<close>, and nothing is
  raised, when one of the keys \<^verbatim>\<open>type\<close>, \<^verbatim>\<open>info\<close>, \<^verbatim>\<open>props\<close>, \<^verbatim>\<open>object.id\<close>,
  \<^verbatim>\<open>node.description\<close>, \<^verbatim>\<open>media.class\<close> is absent from the mapping that should hold
  it.
\<close>

lemma missing_key_gives_None:
  assumes "map_of kvs ''type'' = None
     \<or> map_of kvs ''info'' = None
     \<or> (\<exists>ikvs. map_of kvs ''info'' = Some (JObj ikvs) \<and>
          (map_of ikvs ''props'' = None
           \<or> (\<exists>pkvs. map_of ikvs ''props'' = Some (JObj pkvs) \<and>
                 (map_of pkvs ''object.id'' = None
                  \<or> map_of pkvs ''node.description'' = None
                  \<or> map_of pkvs ''media.class'' = None))))"
  shows "audio_device_from_pw_node (JObj kvs) = Inr None"
  using assms
  by (auto simp add: audio_device_from_pw_node_def subscript_JObj except_KeyError_def
      split: option.splits)

lemma missing_key_gives_None_example:
  "audio_device_from_pw_node
     (JObj [(''type'', JStr ''PipeWire:Interface:Node''),
            (''info'', JObj [(''props'', JObj [(''object.id'', JInt 42),
                                               (''media.class'', JStr ''Audio/Source'')])])])
   = Inr None"
  by (rule missing_key_gives_None) simp

text \<open>
  A leaf of the wrong shape is not looked at: the annotations of the dataclass are not
  enforced, and a string \<^verbatim>\<open>object.id\<close> becomes the id of the device.
\<close>

lemma ill_typed_id_kept:
  "audio_device_from_pw_node
     (JObj [(''type'', JStr ''PipeWire:Interface:Node''),
            (''info'', JObj [(''props'', JObj [(''object.id'', JStr ''forty-two''),
                                               (''node.description'', JInt 7),
                                               (''media.class'', JStr ''Audio/Sink'')])])])
   = Inr (Some \<lparr>dev_id = JStr ''forty-two'', name = JInt 7, direction = OUTPUT,
                muted = None, volume = None\<rparr>)"
  by (simp add: audio_device_from_pw_node_def subscript_def except_KeyError_def node_tag_def)

section \<open>The device lister\<close>

text \<open>
  C5: when the listing of a dump succeeds with the devices \<open>devs\<close>, then \<^verbatim>\<open>get_inputs\<close>
  and \<^verbatim>\<open>get_outputs\<close> on the same dump succeed too, each after the same single call.
  Their results taken together are exactly \<open>devs\<close> (as multisets, so every device is in
  one of them), they share no device, the first holds only devices of direction \<open>INPUT\<close>
  and the second only devices of direction \<open>OUTPUT\<close>, and each is a subsequence of
  \<open>devs\<close>, so the order of the listing is kept.
\<close>

theorem inputs_outputs_partition:
  assumes "get_audio_devices w t = (Inr devs, t')"
    and "get_inputs w t = (ri, ti)"
    and "get_outputs w t = (ro, to)"
  shows "\<exists>ins outs. ri = Inr ins \<and> ro = Inr outs \<and> ti = t' \<and> to = t'
     \<and> mset ins + mset outs = mset devs
     \<and> set ins \<inter> set outs = {}
     \<and> list_all (\<lambda>d. direction d = INPUT) ins
     \<and> list_all (\<lambda>d. direction d = OUTPUT) outs
     \<and> subseq ins devs \<and> subseq outs devs"
proof -
  have ri: "ri = Inr (filter is_input devs)" and ti: "ti = t'"
    using assms(1,2) by (simp_all add: get_inputs_def)
  have ro: "ro = Inr (filter is_output devs)" and to: "to = t'"
    using assms(1,3) by (simp_all add: get_outputs_def)
  have out_not_in: "is_output = (\<lambda>d. \<not> is_input d)"
    by (rule ext) (simp add: is_output_def is_input_def, metis Direction.exhaust Direction.distinct(1))
  have "mset (filter is_input devs) + mset (filter is_output devs) = mset devs"
    by (simp add: out_not_in)
  moreover have "set (filter is_input devs) \<inter> set (filter is_output devs) = {}"
    by (auto simp: out_not_in)
  moreover have "list_all (\<lambda>d. direction d = INPUT) (filter is_input devs)"
    by (simp add: list_all_iff is_input_def)
  moreover have "list_all (\<lambda>d. direction d = OUTPUT) (filter is_output devs)"
    by (simp add: list_all_iff is_output_def)
  ultimately show ?thesis
    using ri ro ti to by simp
qed

theorem inputs_outputs_partition_witness:
  "\<exists>ins outs. (Inr [headset] :: exn + AudioDevice list) = Inr ins
     \<and> (Inr [speakers] :: exn + AudioDevice list) = Inr outs
     \<and> [dump_call] = [dump_call] \<and> [dump_call] = [dump_call]
     \<and> mset ins + mset outs = mset [headset, speakers]
     \<and> set ins \<inter> set outs = {}
     \<and> list_all (\<lambda>d. direction d = INPUT) ins
     \<and> list_all (\<lambda>d. direction d = OUTPUT) outs
     \<and> subseq ins [headset, speakers] \<and> subseq outs [headset, speakers]"
proof -
  let ?w = "example_env (Exited 0 ''[]'') (Some (JList [headset_node, speakers_node]))
              Launch_failed Launch_failed"
  have l: "get_audio_devices ?w [] = (Inr [headset, speakers], [dump_call])"
    using example_listing [of "''[]''" Launch_failed Launch_failed "[]"] by simp
  have i: "get_inputs ?w [] = (Inr [headset], [dump_call])"
    by (simp add: get_inputs_def l example_directions)
  have o: "get_outputs ?w [] = (Inr [speakers], [dump_call])"
    by (simp add: get_outputs_def l example_directions)
  show ?thesis
    by (rule inputs_outputs_partition [OF l i o])
qed

section \<open>Failure of the dump command\<close>

text \<open>
  C1, for \<^verbatim>\<open>select_source\<close>: when the dump command exits with a code other than zero,
  the handler catches the \<^verbatim>\<open>CalledProcessError\<close> of the listing, because the listing
  stands inside its \<^verbatim>\<open>try\<close> block. The run makes no further call and the process
  exits with 0 and no message: the failure is not fatal.
\<close>

theorem source_swallows_dump_failure:
  assumes "menu_prog w args = Inr menu"
    and "subcommand args = Select_source"
    and "exec w [] dump_call = Exited rc out"
    and "rc \<noteq> 0"
  shows "main w args = (Inr (), [dump_call]) \<and> exit_status (fst (main w args)) = (0, False)"
proof -
  have "get_audio_devices w [] = (Inl CalledProcessError, [dump_call])"
    using assms(3,4) listing_exit_nonzero [of w "[]"] by simp
  then have "select_source w menu [] = (Inr (), [dump_call])"
    by (simp add: select_source_def get_inputs_def except_CalledProcessError_def)
  then have "main w args = (Inr (), [dump_call])"
    using assms(1,2) by (simp add: main_def)
  then show ?thesis by (simp add: exit_status_def)
qed

theorem source_swallows_dump_failure_witness:
  "main (example_env (Exited 1 '''') None Launch_failed Launch_failed)
        \<lparr>menu_opt = Some ''dmenu'', subcommand = Select_source\<rparr> = (Inr (), [dump_call])
   \<and> exit_status (fst (main (example_env (Exited 1 '''') None Launch_failed Launch_failed)
        \<lparr>menu_opt = Some ''dmenu'', subcommand = Select_source\<rparr>)) = (0, False)"
  by (rule source_swallows_dump_failure [where rc = 1 and out = "''''" and menu = "[''dmenu'']"])
     (simp_all add: example_menu_prog exec_example_env)

text \<open>
  The sibling handler \<^verbatim>\<open>select_sink\<close> lists before its \<^verbatim>\<open>try\<close> block, so the same
  failure ends the process with exit code 1 and a traceback.
\<close>

lemma sink_dump_failure:
  assumes "menu_prog w args = Inr menu"
    and "subcommand args = Select_sink"
    and "exec w [] dump_call = Exited rc out"
    and "rc \<noteq> 0"
  shows "main w args = (Inl CalledProcessError, [dump_call]) \<and> exit_status (fst (main w args)) = (1, True)"
proof -
  have "get_audio_devices w [] = (Inl CalledProcessError, [dump_call])"
    using assms(3,4) listing_exit_nonzero [of w "[]"] by simp
  then have "select_sink w menu [] = (Inl CalledProcessError, [dump_call])"
    by (simp add: select_sink_def get_outputs_def)
  then have "main w args = (Inl CalledProcessError, [dump_call])"
    using assms(1,2) by (simp add: main_def)
  then show ?thesis by (simp add: exit_status_def)
qed

text \<open>Output that is not JSON is fatal in both handlers.\<close>

lemma dump_not_json:
  assumes "menu_prog w args = Inr menu"
    and "exec w [] dump_call = Exited 0 out"
    and "loads w out = None"
  shows "main w args = (Inl JSONDecodeError, [dump_call]) \<and> exit_status (fst (main w args)) = (1, True)"
proof -
  have l: "get_audio_devices w [] = (Inl JSONDecodeError, [dump_call])"
    using assms(2,3) listing_not_json [of w "[]"] by simp
  have "select_source w menu [] = (Inl JSONDecodeError, [dump_call])"
    using l by (simp add: select_source_def get_inputs_def except_CalledProcessError_def)
  moreover have "select_sink w menu [] = (Inl JSONDecodeError, [dump_call])"
    using l by (simp add: select_sink_def get_outputs_def)
  ultimately have "main w args = (Inl JSONDecodeError, [dump_call])"
    using assms(1) by (simp add: main_def split: command.splits)
  then show ?thesis by (simp add: exit_status_def)
qed

section \<open>Failure of the picker or of the default setter\<close>



section \<open>Round trip of the device id\<close>

text \<open>
  C6: for every integer id and every name, the text before the first space of the menu
  line \<^verbatim>\<open>"<id> <name>"\<close> is the decimal text of the id, and that text belongs to no
  other integer: the id is recovered exactly. Nothing is asked of the name, since the
  decimal text of an integer holds no space.
\<close>

theorem menu_line_round_trip:
  "first (split_on CHR '' '' (menu_line w \<lparr>dev_id = JInt i, name = n, direction = d,
                                             muted = m, volume = v\<rparr>)) = Inr (str_int i)
   \<and> (str_int j = str_int i \<longleftrightarrow> j = i)"
proof -
  have "first (split_on CHR '' '' (str_int i @ CHR '' '' # py_str w n)) = Inr (str_int i)"
    by (rule first_split_on_prefix) (rule space_notin_str_int)
  moreover have "str_int j = str_int i \<longleftrightarrow> j = i"
    using str_int_inject by blast
  ultimately show ?thesis
    by (simp add: menu_line_def py_str_def)
qed

section \<open>A selection that names no device\<close>




section \<open>Resolution of the picker program\<close>

text \<open>
  C9: \<^verbatim>\<open>find_menuprog\<close> returns the first of \<^verbatim>\<open>dmenu\<close>, \<^verbatim>\<open>dmenu-wl\<close>,
  \<^verbatim>\<open>rofi -dmenu\<close>, \<^verbatim>\<open>fuzzel --dmenu\<close>, in this order, whose program (\<^verbatim>\<open>dmenu\<close>,
  \<^verbatim>\<open>dmenu-wl\<close>, \<^verbatim>\<open>rofi\<close>, \<^verbatim>\<open>fuzzel\<close>) is found on the execution path, and \<^verbatim>\<open>None\<close>
  when none is. A run without the option \<^verbatim>\<open>--menu\<close> uses that result: the group callback
  receives it, so when a candidate is found the run is the run with \<^verbatim>\<open>--menu\<close> set to
  that candidate, and when none is found the run ends with a usage error before any
  program is called, with exit code 2 and a message.
\<close>

theorem menu_resolution:
  assumes "found = (if which w ''dmenu'' \<noteq> None then Some ''dmenu''
                    else if which w ''dmenu-wl'' \<noteq> None then Some ''dmenu-wl''
                    else if which w ''rofi'' \<noteq> None then Some ''rofi -dmenu''
                    else if which w ''fuzzel'' \<noteq> None then Some ''fuzzel --dmenu''
                    else None)"
  shows "find_menuprog w = Inr found
     \<and> menu_prog w \<lparr>menu_opt = None, subcommand = c\<rparr> = audiomenu w found
     \<and> main w \<lparr>menu_opt = None, subcommand = c\<rparr> =
         (case found of
            None \<Rightarrow> (Inl UsageError, [])
          | Some m \<Rightarrow> main w \<lparr>menu_opt = Some m, subcommand = c\<rparr>)
     \<and> (found = None \<longrightarrow>
          exit_status (fst (main w \<lparr>menu_opt = None, subcommand = c\<rparr>)) = (2, True))"
proof -
  have f: "find_menuprog w = Inr found"
    unfolding assms by (simp add: find_menuprog_def first_def)
  then have p: "menu_prog w \<lparr>menu_opt = None, subcommand = c\<rparr> = audiomenu w found"
    by (simp add: menu_prog_def)
  have m: "main w \<lparr>menu_opt = None, subcommand = c\<rparr> =
         (case found of
            None \<Rightarrow> (Inl UsageError, [])
          | Some m \<Rightarrow> main w \<lparr>menu_opt = Some m, subcommand = c\<rparr>)"
  proof (cases found)
    case None
    with p show ?thesis by (simp add: main_def audiomenu_def)
  next
    case (Some m)
    have "menu_prog w \<lparr>menu_opt = Some m, subcommand = c\<rparr> = audiomenu w (Some m)"
      by (simp add: menu_prog_def)
    with p Some show ?thesis by (simp add: main_def split: sum.splits)
  qed
  then have "found = None \<longrightarrow>
          exit_status (fst (main w \<lparr>menu_opt = None, subcommand = c\<rparr>)) = (2, True)"
    by (simp add: exit_status_def)
  with f p m show ?thesis by blast
qed

theorem menu_resolution_witness:
  "find_menuprog no_menu_env = Inr None
   \<and> main no_menu_env \<lparr>menu_opt = None, subcommand = Select_sink\<rparr> = (Inl UsageError, [])
   \<and> exit_status (fst (main no_menu_env \<lparr>menu_opt = None, subcommand = Select_sink\<rparr>)) = (2, True)
   \<and> find_menuprog (example_env (Exited 0 ''[]'') (Some (JList [])) Launch_failed (Exited 1 ''''))
       = Inr (Some ''rofi -dmenu'')
   \<and> menu_prog (example_env (Exited 0 ''[]'') (Some (JList [])) Launch_failed (Exited 1 ''''))
         \<lparr>menu_opt = None, subcommand = Select_sink\<rparr> = Inr [''rofi'', ''-dmenu'']
   \<and> main (example_env (Exited 0 ''[]'') (Some (JList [])) Launch_failed (Exited 1 ''''))
         \<lparr>menu_opt = None, subcommand = Select_sink\<rparr>
       = (Inr (), [dump_call, \<lparr>argv = [''rofi'', ''-dmenu''], input = Some ''''\<rparr>])"
proof -
  let ?w = "example_env (Exited 0 ''[]'') (Some (JList [])) Launch_failed (Exited 1 '''')"
  have n: "which no_menu_env p = None" for p
    by (simp add: no_menu_env_def example_env_def)
  have none: "None = (if which no_menu_env ''dmenu'' \<noteq> None then Some ''dmenu''
                    else if which no_menu_env ''dmenu-wl'' \<noteq> None then Some ''dmenu-wl''
                    else if which no_menu_env ''rofi'' \<noteq> None then Some ''rofi -dmenu''
                    else if which no_menu_env ''fuzzel'' \<noteq> None then Some ''fuzzel --dmenu''
                    else None)"
    by (simp add: n)
  have rofi: "Some ''rofi -dmenu'' = (if which ?w ''dmenu'' \<noteq> None then Some ''dmenu''
                    else if which ?w ''dmenu-wl'' \<noteq> None then Some ''dmenu-wl''
                    else if which ?w ''rofi'' \<noteq> None then Some ''rofi -dmenu''
                    else if which ?w ''fuzzel'' \<noteq> None then Some ''fuzzel --dmenu''
                    else None)"
    by (simp add: example_env_def)
  note a = menu_resolution [OF none, of Select_sink]
  note b = menu_resolution [OF rofi, of Select_sink]
  have prog: "audiomenu ?w (Some ''rofi -dmenu'') = Inr [''rofi'', ''-dmenu'']"
    by (simp add: audiomenu_def example_env_def)
  have l: "get_audio_devices ?w [] = (Inr [], [dump_call])"
    using listing_decoded [of ?w "[]" "''[]''" "[]"] by (simp add: exec_example_env)
  have "exec ?w [dump_call] \<lparr>argv = [''rofi'', ''-dmenu''], input = Some ''''\<rparr> = Exited 1 ''''"
    by (simp add: example_env_def)
  then have "pick_and_set ?w [''rofi'', ''-dmenu''] '''' [dump_call]
      = (Inl CalledProcessError, [dump_call, \<lparr>argv = [''rofi'', ''-dmenu''], input = Some ''''\<rparr>])"
    using pick_cancelled [of ?w "[dump_call]" "[''rofi'', ''-dmenu'']" "''''" 1 "''''"] by simp
  then have "select_sink ?w [''rofi'', ''-dmenu''] []
      = (Inr (), [dump_call, \<lparr>argv = [''rofi'', ''-dmenu''], input = Some ''''\<rparr>])"
    by (simp add: select_sink_def get_outputs_def l menu_text_def except_CalledProcessError_def)
  then have r: "main ?w \<lparr>menu_opt = Some ''rofi -dmenu'', subcommand = Select_sink\<rparr>
      = (Inr (), [dump_call, \<lparr>argv = [''rofi'', ''-dmenu''], input = Some ''''\<rparr>])"
    by (simp add: main_def menu_prog_def prog)
  from a have "find_menuprog no_menu_env = Inr None"
    "main no_menu_env \<lparr>menu_opt = None, subcommand = Select_sink\<rparr> = (Inl UsageError, [])"
    "exit_status (fst (main no_menu_env \<lparr>menu_opt = None, subcommand = Select_sink\<rparr>)) = (2, True)"
    by (simp_all add: exit_status_def)
  moreover from b prog r have "find_menuprog ?w = Inr (Some ''rofi -dmenu'')"
    "menu_prog ?w \<lparr>menu_opt = None, subcommand = Select_sink\<rparr> = Inr [''rofi'', ''-dmenu'']"
    "main ?w \<lparr>menu_opt = None, subcommand = Select_sink\<rparr>
       = (Inr (), [dump_call, \<lparr>argv = [''rofi'', ''-dmenu''], input = Some ''''\<rparr>])"
    by simp_all
  ultimately show ?thesis by blast
qed

section \<open>An empty device list\<close>

text \<open>
  C10: when the listing succeeds and no device has the direction of the subcommand, the
  handler still runs the picker, right after the dump, with the empty text as its
  standard input.
\<close>

theorem empty_menu_still_shown:
  assumes "get_audio_devices w t = (Inr devs, t')"
  shows "(filter is_input devs = [] \<longrightarrow>
           prefix (t' @ [\<lparr>argv = menu, input = Some ''''\<rparr>]) (snd (select_source w menu t)))
       \<and> (filter is_output devs = [] \<longrightarrow>
           prefix (t' @ [\<lparr>argv = menu, input = Some ''''\<rparr>]) (snd (select_sink w menu t)))"
proof -
  have e: "menu_text w [] = ''''" by (simp add: menu_text_def)
  have "filter is_input devs = [] \<Longrightarrow>
          snd (select_source w menu t) = snd (pick_and_set w menu '''' t')"
    using assms by (simp add: select_source_def get_inputs_def snd_except_CalledProcessError e)
  moreover have "filter is_output devs = [] \<Longrightarrow>
          snd (select_sink w menu t) = snd (pick_and_set w menu '''' t')"
    using assms by (simp add: select_sink_def get_outputs_def snd_except_CalledProcessError e)
  ultimately show ?thesis
    using pick_first_call [of t' menu "''''" w] by simp
qed

theorem empty_menu_still_shown_witness:
  "prefix [dump_call, \<lparr>argv = [''dmenu''], input = Some ''''\<rparr>]
     (snd (select_source (example_env (Exited 0 ''[]'') (Some (JList [])) (Exited 1 '''') Launch_failed)
             [''dmenu''] []))
   \<and> prefix [dump_call, \<lparr>argv = [''dmenu''], input = Some ''''\<rparr>]
     (snd (select_sink (example_env (Exited 0 ''[]'') (Some (JList [])) (Exited 1 '''') Launch_failed)
             [''dmenu''] []))"
proof -
  let ?w = "example_env (Exited 0 ''[]'') (Some (JList [])) (Exited 1 '''') Launch_failed"
  have "get_audio_devices ?w [] = (Inr [], [dump_call])"
    using listing_decoded [of ?w "[]" "''[]''" "[]"] by (simp add: exec_example_env)
  from empty_menu_still_shown [OF this, of "[''dmenu'']"] show ?thesis by simp
qed

end
